theory Spec2Isabelle
  imports Complex_Main "HOL-Library.AList" "HOL-Library.Sublist"
begin

section \<open>Python text and numbers\<close>

text \<open>
  Strings are lists of characters; the development covers ASCII text, on which
  Python's \<^verbatim>\<open>str.lower\<close>, \<^verbatim>\<open>str.strip\<close> and the regular-expression
  classes act as written below. Python's \<^verbatim>\<open>x in s\<close> on strings is \<^const>\<open>sublist\<close>.
  Numbers are exact rationals: a decimal literal denotes its decimal value.
\<close>

definition lower_char :: "char \<Rightarrow> char" where
  "lower_char c =
     (case map_of (zip ''ABCDEFGHIJKLMNOPQRSTUVWXYZ'' ''abcdefghijklmnopqrstuvwxyz'') c of
        Some l \<Rightarrow> l
      | None \<Rightarrow> c)"

definition lower :: "string \<Rightarrow> string" where
  "lower s = map lower_char s"

text \<open>The ASCII characters for which \<^verbatim>\<open>str.isspace\<close> holds: codes 9 to 13 and 28 to 32.\<close>

definition isspace :: "char \<Rightarrow> bool" where
  "isspace c =
     (c \<in> set [CHR 0x09, CHR 0x0A, CHR 0x0B, CHR 0x0C, CHR 0x0D,
                 CHR 0x1C, CHR 0x1D, CHR 0x1E, CHR 0x1F, CHR 0x20])"

definition isdigit :: "char \<Rightarrow> bool" where
  "isdigit c = (c \<in> set ''0123456789'')"

definition isword :: "char \<Rightarrow> bool" where
  "isword c =
     (c \<in> set ''abcdefghijklmnopqrstuvwxyzABCDEFGHIJKLMNOPQRSTUVWXYZ0123456789_'')"

definition lstrip :: "string \<Rightarrow> string" where
  "lstrip s = dropWhile isspace s"

definition rstrip :: "string \<Rightarrow> string" where
  "rstrip s = rev (dropWhile isspace (rev s))"

definition strip :: "string \<Rightarrow> string" where
  "strip s = rstrip (lstrip s)"

text \<open>\<^verbatim>\<open>round(x, n)\<close> for \<open>n \<ge> 0\<close>: to the nearest multiple of \<open>10^-n\<close>, a tie to the even one.\<close>

definition round_half_even :: "rat \<Rightarrow> int" where
  "round_half_even x =
     (let f = \<lfloor>x\<rfloor>; d = x - of_int f
      in if d < 1 / 2 then f else if 1 / 2 < d then f + 1 else if even f then f else f + 1)"

definition py_round :: "rat \<Rightarrow> nat \<Rightarrow> rat" where
  "py_round x n = of_int (round_half_even (x * 10 ^ n)) / 10 ^ n"

section \<open>server.py: the toll calculator\<close>



section \<open>Regular expressions as the client uses them\<close>

text \<open>
  The four patterns of the client are sequences of single-character items, each taken
  once or under a greedy \<^verbatim>\<open>?\<close>, \<^verbatim>\<open>*\<close> or \<^verbatim>\<open>+\<close>, around one capture group.
  \<open>rests\<close> lists what can remain of the text after a sequence of items has matched at its
  start, in the order a backtracking matcher tries the alternatives (longest repetition
  first); \<open>re_search\<close> is \<^verbatim>\<open>re.search(...).group(1)\<close>: the leftmost start, and there the
  first alternative that lets the whole pattern match.
\<close>

datatype cclass = Lit char | LitI char | Digit | Space | Word | Dot

fun cmatch :: "cclass \<Rightarrow> char \<Rightarrow> bool" where
  "cmatch (Lit a) c = (c = a)"
| "cmatch (LitI a) c = (lower_char c = lower_char a)"
| "cmatch Digit c = isdigit c"
| "cmatch Space c = isspace c"
| "cmatch Word c = isword c"
| "cmatch Dot c = (c \<noteq> CHR 0x0A)"

datatype rep = Once | Opt | Star | Plus

type_synonym item = "cclass \<times> rep"

fun rests :: "item list \<Rightarrow> string \<Rightarrow> string list" where
  "rests [] s = [s]"
| "rests ((k, Once) # is) [] = []"
| "rests ((k, Once) # is) (c # cs) = (if cmatch k c then rests is cs else [])"
| "rests ((k, Opt) # is) [] = rests is []"
| "rests ((k, Opt) # is) (c # cs) =
     (if cmatch k c then rests is cs else []) @ rests is (c # cs)"
| "rests ((k, Star) # is) [] = rests is []"
| "rests ((k, Star) # is) (c # cs) =
     (if cmatch k c then rests ((k, Star) # is) cs else []) @ rests is (c # cs)"
| "rests ((k, Plus) # is) [] = []"
| "rests ((k, Plus) # is) (c # cs) = (if cmatch k c then rests ((k, Star) # is) cs else [])"

record pattern =
  before :: "item list"
  group :: "item list"
  after :: "item list"

definition match_here :: "pattern \<Rightarrow> string \<Rightarrow> string option" where
  "match_here p s =
     (case concat (map (\<lambda>s1. concat (map (\<lambda>s2. map (\<lambda>s3. take (length s1 - length s2) s1)
                                                  (rests (after p) s2))
                                    (rests (group p) s1)))
                       (rests (before p) s)) of
        [] \<Rightarrow> None
      | g # _ \<Rightarrow> Some g)"

fun re_search :: "pattern \<Rightarrow> string \<Rightarrow> string option" where
  "re_search p [] = match_here p []"
| "re_search p (c # cs) =
     (case match_here p (c # cs) of Some g \<Rightarrow> Some g | None \<Rightarrow> re_search p cs)"

definition lit :: "string \<Rightarrow> item list" where
  "lit s = map (\<lambda>c. (Lit c, Once)) s"

definition lit_ignorecase :: "string \<Rightarrow> item list" where
  "lit_ignorecase s = map (\<lambda>c. (LitI c, Once)) s"

text \<open>\<^verbatim>\<open>\d+\.?\d*\<close>, the group of the distance and rate patterns.\<close>

definition number :: "item list" where
  "number = [(Digit, Plus), (Lit (CHR ''.''), Opt), (Digit, Star)]"

text \<open>\<^verbatim>\<open>for\s+(\w+)\<close>\<close>

definition vehicle_re :: pattern where
  "vehicle_re = \<lparr>before = lit ''for'' @ [(Space, Plus)], group = [(Word, Plus)], after = []\<rparr>"

text \<open>\<^verbatim>\<open>(\d+\.?\d*)\s+miles\<close>\<close>

definition distance_re :: pattern where
  "distance_re = \<lparr>before = [], group = number, after = (Space, Plus) # lit ''miles''\<rparr>"

text \<open>\<^verbatim>\<open>\$?(\d+\.?\d*)\s*/?\s*mile\<close>\<close>

definition rate_re :: pattern where
  "rate_re =
     \<lparr>before = [(Lit (CHR ''$''), Opt)], group = number,
      after = [(Space, Star), (Lit (CHR ''/''), Opt), (Space, Star)] @ lit ''mile''\<rparr>"

text \<open>\<^verbatim>\<open>run sql query\s+(.+)\<close> under \<^verbatim>\<open>re.IGNORECASE\<close>\<close>

definition query_re :: pattern where
  "query_re =
     \<lparr>before = lit_ignorecase ''run sql query'' @ [(Space, Plus)], group = [(Dot, Plus)],
      after = []\<rparr>"

text \<open>
  \<^verbatim>\<open>float\<close> on what \<open>number\<close> captures: digits, then possibly a point and more digits.
\<close>

definition digit_val :: "char \<Rightarrow> nat" where
  "digit_val c =
     (case map_of (zip ''0123456789'' [0, 1, 2, 3, 4, 5, 6, 7, 8, 9]) c of
        Some d \<Rightarrow> d
      | None \<Rightarrow> 0)"

definition digits_val :: "string \<Rightarrow> nat" where
  "digits_val s = foldl (\<lambda>n c. 10 * n + digit_val c) 0 s"

definition py_float :: "string \<Rightarrow> rat" where
  "py_float s =
     (let whole = takeWhile isdigit s; frac = drop (Suc (length whole)) s
      in of_nat (digits_val whole) + of_nat (digits_val frac) / 10 ^ length frac)"

section \<open>streamlit\_client.py: the command interpreter\<close>

text \<open>
  What \<^verbatim>\<open>process_command\<close> does with one line of chat input: which tool it calls and
  with which arguments, or which message it returns without calling one. The gateway
  behind \<^verbatim>\<open>generate_sql_query\<close> is a parameter: it returns the generated text or
  raises.
\<close>

datatype dispatch =
    SecretWord
  | CalculateToll string rat rat
  | DirectSQL string
  | Message string
  | GeneratedSQL string
  | Raised string

definition missing_query :: string where
  "missing_query =
     ''Please provide a SQL query (e.g., '' @ [CHR 0x27] @ ''Run SQL query SELECT * FROM my_table''
       @ [CHR 0x27] @ '').''"

definition process_command :: "(string \<Rightarrow> string + string) \<Rightarrow> string \<Rightarrow> dispatch" where
  "process_command generate_sql_query user_input =
     (let command = strip (lower user_input) in
      if sublist ''secret word'' command then SecretWord
      else if sublist ''calculate toll'' command then
        (let vehicle_match = re_search vehicle_re command;
             distance_match = re_search distance_re command;
             rate_match = re_search rate_re command;
             vehicle_type = (case vehicle_match of Some g \<Rightarrow> g | None \<Rightarrow> ''car'');
             distance = (case distance_match of Some g \<Rightarrow> py_float g | None \<Rightarrow> 10);
             toll_rate = (case rate_match of Some g \<Rightarrow> py_float g | None \<Rightarrow> 1 / 4)
         in CalculateToll vehicle_type distance toll_rate)
      else if sublist ''run sql query'' command then
        (case re_search query_re command of
           None \<Rightarrow> Message missing_query
         | Some g \<Rightarrow> DirectSQL (strip g))
      else
        (case generate_sql_query command of
           Inl e \<Rightarrow> Raised e
         | Inr query \<Rightarrow> GeneratedSQL query))"

section \<open>server.py: the environment, exceptions and rows\<close>

text \<open>
  \<^verbatim>\<open>os.getenv\<close> reads a map from names to values; a variable that is unset and one set
  to the empty string both fail the truth tests the tools apply to them.
\<close>

type_synonym env = "string \<rightharpoonup> string"

definition truthy :: "string option \<Rightarrow> bool" where
  "truthy v = (case v of None \<Rightarrow> False | Some s \<Rightarrow> s \<noteq> [])"

text \<open>
  An exception is its class and its message; \<open>EngineError\<close> stands for whatever a call
  into a vendor library raises.
\<close>

datatype exn = ValueError string | RuntimeError string | EngineError string

fun str :: "exn \<Rightarrow> string" where
  "str (ValueError m) = m"
| "str (RuntimeError m) = m"
| "str (EngineError m) = m"

text \<open>
  A row mapping is a Python \<^verbatim>\<open>dict\<close>: keys in order of first insertion, and a pair whose
  key is already present replaces the value in place.
\<close>

type_synonym ('k, 'v) dict = "('k \<times> 'v) list"

definition dict :: "('k \<times> 'v) list \<Rightarrow> ('k, 'v) dict" where
  "dict kvs = foldl (\<lambda>d (k, v). AList.update k v d) [] kvs"

text \<open>What the tools do to the outside world, in the order they do it.\<close>

datatype event =
    ExecuteStatement string string string
  | Sleep nat
  | Refresh
  | Connect
  | Cursor
  | Execute string
  | Fetchall
  | CursorExit
  | ConnClose

section \<open>server.py: run\_sql\_query\<close>

text \<open>
  The handle as the tool reads it. The state is compared with strings; \<open>error\<close> is the
  text that formatting \<^verbatim>\<open>statement.status.error\<close> into a message gives.
\<close>

record status =
  state :: string
  error :: string

datatype field = Field (name: string)

datatype schema = Schema (fields: "field list")

record 'c result =
  data_array :: "'c list list option"
  schema :: "schema option"

record 'c statement =
  status :: status
  result :: "'c result"

text \<open>
  The warehouse as the tool meets it: what \<^verbatim>\<open>execute_statement\<close> answers for a
  warehouse id, a query and a wait timeout, and what the handle holds after the first,
  second, ... call of \<^verbatim>\<open>statement.refresh()\<close>; either call may raise instead.
\<close>

record 'c engine =
  execute_statement :: "string \<Rightarrow> string \<Rightarrow> string \<Rightarrow> string + 'c statement"
  refresh :: "nat \<Rightarrow> string + 'c statement"

definition active :: "'c statement \<Rightarrow> bool" where
  "active statement = (state (status statement) \<in> set [''PENDING'', ''RUNNING''])"

text \<open>
  The \<^verbatim>\<open>while\<close> loop of \<^verbatim>\<open>poll_results\<close>, entered with the handle and the number of
  refreshes made so far. It yields the handle it stopped on, or the message a refresh raised,
  with the number of rounds made; \<open>None\<close> is the loop that never ends.
\<close>

partial_function (option) poll_loop ::
  "(nat \<Rightarrow> string + 'c statement) \<Rightarrow> 'c statement \<Rightarrow> nat \<Rightarrow> ((string + 'c statement) \<times> nat) option"
where
  "poll_loop rf statement n =
     (if active statement then
        (case rf n of
           Inl e \<Rightarrow> Some (Inl e, Suc n)
         | Inr statement' \<Rightarrow> poll_loop rf statement' (Suc n))
      else Some (Inr statement, n))"

text \<open>Each round sleeps two seconds and then refreshes.\<close>

definition poll_events :: "nat \<Rightarrow> event list" where
  "poll_events n = concat (replicate n [Sleep 2, Refresh])"

definition poll_results ::
  "(nat \<Rightarrow> string + 'c statement) \<Rightarrow> 'c statement \<Rightarrow>
     ((exn + 'c statement \<times> 'c list list) \<times> event list) option"
where
  "poll_results rf statement =
     (case poll_loop rf statement 0 of
        None \<Rightarrow> None
      | Some (Inl e, n) \<Rightarrow> Some (Inl (EngineError e), poll_events n)
      | Some (Inr statement', n) \<Rightarrow>
          Some (if state (status statement') \<noteq> ''SUCCEEDED''
                then Inl (RuntimeError (''Query failed: '' @ error (status statement')))
                else Inr (statement',
                          (case data_array (result statement') of None \<Rightarrow> [] | Some d \<Rightarrow> d)),
                poll_events n))"

text \<open>The lines after \<^verbatim>\<open>results = await poll_results()\<close>.\<close>

definition translate_results :: "'c statement \<Rightarrow> 'c list list \<Rightarrow> (string, 'c) dict list" where
  "translate_results statement results =
     (if results \<noteq> [] \<and> schema (result statement) \<noteq> None then
        (let columns = map name (schema.fields (the (schema (result statement))))
         in map (\<lambda>row. dict (zip columns row)) results)
      else [])"

text \<open>The body of the \<^verbatim>\<open>try\<close>, then the tool with its \<^verbatim>\<open>except\<close> clause.\<close>

definition run_sql_query_body ::
  "env \<Rightarrow> 'c engine \<Rightarrow> string \<Rightarrow> ((exn + (string, 'c) dict list) \<times> event list) option"
where
  "run_sql_query_body environ engine query =
     (let warehouse_id = environ ''DATABRICKS_SQL_WAREHOUSE_ID'' in
      if \<not> truthy warehouse_id then
        Some (Inl (ValueError ''DATABRICKS_SQL_WAREHOUSE_ID not set''), [])
      else
        (case execute_statement engine (the warehouse_id) query ''30s'' of
           Inl e \<Rightarrow>
             Some (Inl (EngineError e), [ExecuteStatement (the warehouse_id) query ''30s''])
         | Inr statement \<Rightarrow>
             (case poll_results (refresh engine) statement of
                None \<Rightarrow> None
              | Some (Inl e, evs) \<Rightarrow>
                  Some (Inl e, ExecuteStatement (the warehouse_id) query ''30s'' # evs)
              | Some (Inr (statement', results), evs) \<Rightarrow>
                  Some (Inr (translate_results statement' results),
                        ExecuteStatement (the warehouse_id) query ''30s'' # evs))))"

definition run_sql_query ::
  "env \<Rightarrow> 'c engine \<Rightarrow> string \<Rightarrow> ((exn + (string, 'c) dict list) \<times> event list) option"
where
  "run_sql_query environ engine query =
     (case run_sql_query_body environ engine query of
        None \<Rightarrow> None
      | Some (Inl e, evs) \<Rightarrow> Some (Inl (RuntimeError (''SQL query failed: '' @ str e)), evs)
      | Some (Inr rows, evs) \<Rightarrow> Some (Inr rows, evs))"

section \<open>server.py: run\_snowflake\_query\<close>

text \<open>
  Snowflake as the tool meets it: whether \<^verbatim>\<open>connect\<close> raises for the six credentials,
  whether \<^verbatim>\<open>cur.execute\<close> raises for the query, the cursor's \<^verbatim>\<open>description\<close>
  afterwards (absent, or one entry per column, its name first), and what
  \<^verbatim>\<open>cur.fetchall()\<close> returns or raises.
\<close>

record ('c, 'd) snowflake =
  connect :: "string list \<Rightarrow> string option"
  execute :: "string \<Rightarrow> string option"
  description :: "(string \<times> 'd) list option"
  fetchall :: "string + 'c list list"

definition snowflake_variables :: "string list" where
  "snowflake_variables =
     [''SNOWFLAKE_ACCOUNT'', ''SNOWFLAKE_USER'', ''SNOWFLAKE_PASSWORD'',
      ''SNOWFLAKE_DATABASE'', ''SNOWFLAKE_SCHEMA'', ''SNOWFLAKE_WAREHOUSE'']"

text \<open>\<^verbatim>\<open>run_query_sync\<close>: the cursor is released when the \<^verbatim>\<open>with\<close> block is left, however it is left.\<close>

definition run_query_sync ::
  "('c, 'd) snowflake \<Rightarrow> string \<Rightarrow> (exn + (string, 'c) dict list) \<times> event list"
where
  "run_query_sync sf q =
     (case execute sf q of
        Some e \<Rightarrow> (Inl (EngineError e), [Cursor, Execute q, CursorExit])
      | None \<Rightarrow>
          (let columns = (case description sf of None \<Rightarrow> [] | Some ds \<Rightarrow> map fst ds) in
           case fetchall sf of
             Inl e \<Rightarrow> (Inl (EngineError e), [Cursor, Execute q, Fetchall, CursorExit])
           | Inr rows \<Rightarrow>
               (Inr (if columns \<noteq> [] then map (\<lambda>row. dict (zip columns row)) rows else []),
                [Cursor, Execute q, Fetchall, CursorExit])))"

definition run_snowflake_query_body ::
  "env \<Rightarrow> ('c, 'd) snowflake \<Rightarrow> string \<Rightarrow> (exn + (string, 'c) dict list) \<times> event list"
where
  "run_snowflake_query_body environ sf query =
     (let credentials = map environ snowflake_variables in
      if \<not> list_all truthy credentials then
        (Inl (ValueError ''Missing one or more Snowflake environment variables.''), [])
      else
        (case connect sf (map the credentials) of
           Some e \<Rightarrow> (Inl (EngineError e), [Connect])
         | None \<Rightarrow>
             (case run_query_sync sf query of
                (Inl e, evs) \<Rightarrow> (Inl e, Connect # evs)
              | (Inr results, evs) \<Rightarrow> (Inr results, Connect # evs @ [ConnClose]))))"

definition run_snowflake_query ::
  "env \<Rightarrow> ('c, 'd) snowflake \<Rightarrow> string \<Rightarrow> (exn + (string, 'c) dict list) \<times> event list"
where
  "run_snowflake_query environ sf query =
     (case run_snowflake_query_body environ sf query of
        (Inl e, evs) \<Rightarrow> (Inl (RuntimeError (''Snowflake query failed: '' @ str e)), evs)
      | (Inr results, evs) \<Rightarrow> (Inr results, evs))"

section \<open>Notions used to state the properties\<close>

text \<open>
  What the loop test of \<^verbatim>\<open>poll_results\<close> sees: at its first evaluation the handle as
  submitted, at evaluation \<open>k + 1\<close> the outcome of refresh \<open>k\<close>. An observation stops the
  loop when it is a raised exception or a handle that is neither pending nor running.
\<close>

definition stops :: "string + 'c statement \<Rightarrow> bool" where
  "stops r = (case r of Inl e \<Rightarrow> True | Inr statement \<Rightarrow> \<not> active statement)"

definition observed :: "(nat \<Rightarrow> string + 'c statement) \<Rightarrow> 'c statement \<Rightarrow> nat \<Rightarrow> string + 'c statement" where
  "observed rf statement k = (case k of 0 \<Rightarrow> Inr statement | Suc j \<Rightarrow> rf j)"



definition tight :: "string \<Rightarrow> bool" where
  "tight s = (s = [] \<or> \<not> isspace (last s))"

section \<open>Example inputs\<close>

definition handle :: "string \<Rightarrow> string \<Rightarrow> 'c list list option \<Rightarrow> schema option \<Rightarrow> 'c statement" where
  "handle s e d sch = \<lparr>status = \<lparr>state = s, error = e\<rparr>, result = \<lparr>data_array = d, schema = sch\<rparr>\<rparr>"

definition echo :: "string \<Rightarrow> string + string" where
  "echo s = Inr s"

definition running :: "nat statement" where
  "running = handle ''RUNNING'' [] None None"

definition succeeded :: "nat statement" where
  "succeeded = handle ''SUCCEEDED'' [] (Some [[1, 2]]) (Some (Schema [Field ''a'', Field ''b'']))"

definition failed :: "nat statement" where
  "failed = handle ''FAILED'' ''TABLE_OR_VIEW_NOT_FOUND'' None None"

definition always_running :: "nat \<Rightarrow> string + nat statement" where
  "always_running k = Inr running"

definition two_rounds :: "nat statement \<Rightarrow> nat \<Rightarrow> string + nat statement" where
  "two_rounds final k = Inr (if k < 1 then running else final)"

definition warehouse_env :: env where
  "warehouse_env = [''DATABRICKS_SQL_WAREHOUSE_ID'' \<mapsto> ''w1'']"

definition warehouse :: "nat statement \<Rightarrow> (nat \<Rightarrow> string + nat statement) \<Rightarrow> nat engine" where
  "warehouse first rf = \<lparr>execute_statement = (\<lambda>w q t. Inr first), refresh = rf\<rparr>"

definition no_columns :: "nat statement" where
  "no_columns = handle ''SUCCEEDED'' [] (Some [[1]]) (Some (Schema []))"

definition duplicate_columns :: "nat statement" where
  "duplicate_columns =
     handle ''SUCCEEDED'' [] (Some [[1, 2]]) (Some (Schema [Field ''a'', Field ''a'']))"

definition snowflake_env :: env where
  "snowflake_env =
     [''SNOWFLAKE_ACCOUNT'' \<mapsto> ''acme'', ''SNOWFLAKE_USER'' \<mapsto> ''ann'',
      ''SNOWFLAKE_PASSWORD'' \<mapsto> ''pw'', ''SNOWFLAKE_DATABASE'' \<mapsto> ''db'',
      ''SNOWFLAKE_SCHEMA'' \<mapsto> ''public'', ''SNOWFLAKE_WAREHOUSE'' \<mapsto> ''wh'']"

definition database :: "(string \<times> unit) list option \<Rightarrow> nat list list \<Rightarrow> (nat, unit) snowflake" where
  "database ds rows =
     \<lparr>connect = (\<lambda>credentials. None),
      execute = (\<lambda>q. if q = ''SELEC 1'' then Some ''syntax error'' else None),
      description = ds,
      fetchall = Inr rows\<rparr>"

section \<open>Evaluation rules\<close>

lemmas text_defs = lower_def lower_char_def isspace_def isdigit_def isword_def lstrip_def
  rstrip_def strip_def

lemmas re_defs = match_here_def lit_def lit_ignorecase_def number_def vehicle_re_def
  distance_re_def rate_re_def query_re_def digit_val_def digits_val_def py_float_def

lemmas tool_defs = run_sql_query_def run_sql_query_body_def poll_results_def
  translate_results_def run_snowflake_query_def run_snowflake_query_body_def
  run_query_sync_def snowflake_variables_def truthy_def poll_events_def dict_def

lemmas example_defs = handle_def running_def succeeded_def failed_def always_running_def
  two_rounds_def warehouse_env_def warehouse_def
  no_columns_def duplicate_columns_def snowflake_env_def database_def echo_def

section \<open>The toll calculator\<close>

lemma round_half_even_near: "\<bar>of_int (round_half_even x) - x\<bar> \<le> 1 / 2"
  unfolding round_half_even_def Let_def by (auto simp: abs_if) linarith+

lemma py_round_near: "\<bar>py_round x n - x\<bar> \<le> 1 / (2 * 10 ^ n)"
proof -
  have pos: "(0::rat) < 10 ^ n" by simp
  have "py_round x n - x = (of_int (round_half_even (x * 10 ^ n)) - x * 10 ^ n) / 10 ^ n"
    by (simp add: py_round_def diff_divide_distrib)
  then have "\<bar>py_round x n - x\<bar> =
      \<bar>of_int (round_half_even (x * 10 ^ n)) - x * 10 ^ n\<bar> / 10 ^ n"
    using pos by (simp only: abs_divide abs_of_pos)
  also have "\<dots> \<le> (1 / 2) / 10 ^ n"
    by (intro divide_right_mono round_half_even_near) simp
  finally show ?thesis by simp
qed



section \<open>The command interpreter\<close>

lemma toll_command_defaults:
  "process_command generate_sql_query ''Calculate toll'' = CalculateToll ''car'' 10 (1 / 4)"
  "process_command generate_sql_query ''Calculate toll for truck at $0.30/mile'' =
     CalculateToll ''truck'' 10 (3 / 10)"
  "process_command generate_sql_query ''Calculate toll for car, 10 miles, $0.2/mile'' =
     CalculateToll ''car'' 10 10"
  by (simp_all add: process_command_def text_defs re_defs Let_def sublist_code(3))

text \<open>
  C5: on "Calculate toll for truck, 12 miles, $0.30/mile" the interpreter should extract
  the vehicle "truck", the distance 12.0 and the rate 0.30. It extracts the rate 12.0: the
  slash of the rate pattern is optional, so the pattern already matches at "12 mile", to the
  left of "$0.30/mile", and the leftmost match is the one \<^verbatim>\<open>re.search\<close> returns.
\<close>

theorem toll_command_rate_is_distance:
  "process_command generate_sql_query ''Calculate toll for truck, 12 miles, $0.30/mile'' =
     CalculateToll ''truck'' 12 12"
  by (simp add: process_command_def text_defs re_defs Let_def sublist_code(3))








lemma rstrip_tight: "tight s \<Longrightarrow> rstrip s = s"
  by (cases s rule: rev_cases) (auto simp: tight_def rstrip_def)



lemma rests_plus:
  "rests [(k, Plus)] s =
     (case s of [] \<Rightarrow> [] | c # cs \<Rightarrow> if cmatch k c then rests [(k, Star)] cs else [])"
  by (cases s) auto
















section \<open>The poller\<close>

lemma poll_loop_idle: "\<not> active statement \<Longrightarrow> poll_loop rf statement n = Some (Inr statement, n)"
  by (subst poll_loop.simps) simp

lemma poll_loop_raise:
  "active statement \<Longrightarrow> rf n = Inl e \<Longrightarrow> poll_loop rf statement n = Some (Inl e, Suc n)"
  by (subst poll_loop.simps) simp

lemma poll_loop_round:
  "active statement \<Longrightarrow> rf n = Inr statement' \<Longrightarrow>
     poll_loop rf statement n = poll_loop rf statement' (Suc n)"
  by (subst poll_loop.simps) simp

lemma poll_loop_returns:
  "stops (rf (n + k)) \<Longrightarrow> \<exists>r m. poll_loop rf statement n = Some (r, m)"
proof (induction k arbitrary: statement n)
  case 0
  show ?case
  proof (cases "active statement")
    case False
    then show ?thesis by (simp add: poll_loop_idle)
  next
    case True
    show ?thesis
    proof (cases "rf n")
      case (Inl e)
      with True show ?thesis by (simp add: poll_loop_raise)
    next
      case (Inr statement')
      with 0 have "\<not> active statement'" by (simp add: stops_def)
      with True Inr show ?thesis by (simp add: poll_loop_round poll_loop_idle)
    qed
  qed
next
  case (Suc k)
  show ?case
  proof (cases "active statement")
    case False
    then show ?thesis by (simp add: poll_loop_idle)
  next
    case True
    show ?thesis
    proof (cases "rf n")
      case (Inl e)
      with True show ?thesis by (simp add: poll_loop_raise)
    next
      case (Inr statement')
      from Suc.prems have "stops (rf (Suc n + k))" by simp
      from Suc.IH [OF this] obtain r m where "poll_loop rf statement' (Suc n) = Some (r, m)"
        by blast
      with True Inr show ?thesis by (simp add: poll_loop_round)
    qed
  qed
qed

lemmas poll_loop_induct = poll_loop.raw_induct [rotated 1, consumes 1, case_names step]

lemma poll_loop_result_aux:
  "poll_loop rf statement n = Some y \<Longrightarrow>
     n \<le> snd y \<and> stops (fst y) \<and>
     (if snd y = n then fst y = Inr statement
      else active statement \<and> fst y = rf (snd y - 1)) \<and>
     (\<forall>j. n \<le> j \<and> j < snd y - 1 \<longrightarrow> \<not> stops (rf j))"
proof (induction rf statement n y rule: poll_loop_induct)
  case (step pl rf statement n y)
  show ?case
  proof (cases "active statement")
    case False
    with step(2) show ?thesis by (auto simp: stops_def)
  next
    case True
    show ?thesis
    proof (cases "rf n")
      case (Inl e)
      with True step(2) have "y = (Inl e, Suc n)" by simp
      with True Inl show ?thesis by (auto simp: stops_def)
    next
      case (Inr statement')
      with True step(2) have rec: "pl rf statement' (Suc n) = Some y" by simp
      note ih = step(1) [OF rec]
      have a: "\<not> stops (rf n) \<or> snd y = Suc n"
      proof (cases "snd y = Suc n")
        case True then show ?thesis by simp
      next
        case False
        with ih have "active statement'" by simp
        with Inr show ?thesis by (simp add: stops_def)
      qed
      have b: "fst y = rf (snd y - 1)"
      proof (cases "snd y = Suc n")
        case True with ih Inr show ?thesis by simp
      next
        case False with ih show ?thesis by simp
      qed
      have c: "\<forall>j. n \<le> j \<and> j < snd y - 1 \<longrightarrow> \<not> stops (rf j)"
      proof (intro allI impI)
        fix j assume j: "n \<le> j \<and> j < snd y - 1"
        show "\<not> stops (rf j)"
        proof (cases "j = n")
          case True
          with j a show ?thesis by auto
        next
          case False
          with j ih show ?thesis by auto
        qed
      qed
      from ih True b c show ?thesis by auto
    qed
  qed
qed

lemma poll_loop_result:
  "poll_loop rf statement n = Some (r, m) \<Longrightarrow>
     n \<le> m \<and> stops r \<and>
     (if m = n then r = Inr statement else active statement \<and> r = rf (m - 1)) \<and>
     (\<forall>j. n \<le> j \<and> j < m - 1 \<longrightarrow> \<not> stops (rf j))"
  using poll_loop_result_aux [of rf statement n "(r, m)"] by (simp cong: if_cong)

lemma poll_loop_unbounded:
  "active s \<Longrightarrow> \<not> active s' \<Longrightarrow> n \<le> N \<Longrightarrow>
     poll_loop (\<lambda>k. Inr (if k < N then s else s')) s n = Some (Inr s', Suc N)"
proof (induction "N - n" arbitrary: n)
  case 0
  then have "n = N" by simp
  with 0 show ?case by (simp add: poll_loop_round [where statement' = s'] poll_loop_idle)
next
  case (Suc d)
  then have "n < N" and "d = N - Suc n" and "Suc n \<le> N" by simp_all
  with Suc show ?case by (simp add: poll_loop_round [where statement' = s])
qed

text \<open>
  The claim C1 as written fails on a handle that is already finished when it is submitted:
  the loop ends at once, with no wait and no refresh, whatever the refreshes would yield.
\<close>

theorem poll_loop_without_refresh:
  "poll_loop always_running succeeded 0 = Some (Inr succeeded, 0)
   \<and> (\<forall>k. always_running k = Inr running) \<and> active running"
  by (simp add: poll_loop_idle active_def example_defs)

text \<open>
  C1, amended: the loop tests the handle first and, while its state is PENDING or RUNNING,
  waits two seconds and refreshes it. It has no deadline of its own. It ends if and only if
  the state is outside PENDING and RUNNING at submission or after some refresh, or some
  refresh raises; it then ends at the first such observation, after as many waits as
  refreshes, and for every number of rounds there is a warehouse that makes it run longer.
\<close>

theorem poll_loop_ends_iff:
  "((\<exists>r n. poll_loop rf statement 0 = Some (r, n)) = (\<exists>k. stops (observed rf statement k)))
   \<and> (poll_loop rf statement 0 = Some (r, n) \<longrightarrow>
        r = observed rf statement n \<and> stops r \<and> (\<forall>k<n. \<not> stops (observed rf statement k))
        \<and> poll_events n = concat (replicate n [Sleep 2, Refresh]))
   \<and> (active s \<and> \<not> active s' \<longrightarrow>
        poll_loop (\<lambda>k. Inr (if k < N then s else s')) s 0 = Some (Inr s', Suc N))"
proof (intro conjI impI)
  show "(\<exists>r n. poll_loop rf statement 0 = Some (r, n)) = (\<exists>k. stops (observed rf statement k))"
  proof
    assume "\<exists>r n. poll_loop rf statement 0 = Some (r, n)"
    then obtain r n where run: "poll_loop rf statement 0 = Some (r, n)" by blast
    from poll_loop_result [OF run] have "stops (observed rf statement n)"
      by (cases n) (auto simp: observed_def split: if_splits)
    then show "\<exists>k. stops (observed rf statement k)" ..
  next
    assume "\<exists>k. stops (observed rf statement k)"
    then obtain k where k: "stops (observed rf statement k)" ..
    show "\<exists>r n. poll_loop rf statement 0 = Some (r, n)"
    proof (cases k)
      case 0
      with k have "\<not> active statement" by (simp add: observed_def stops_def)
      then show ?thesis by (simp add: poll_loop_idle)
    next
      case (Suc j)
      with k have "stops (rf (0 + j))" by (simp add: observed_def)
      then show ?thesis by (rule poll_loop_returns)
    qed
  qed
next
  assume run: "poll_loop rf statement 0 = Some (r, n)"
  note res = poll_loop_result [OF run]
  from res show "r = observed rf statement n"
    by (cases n) (auto simp: observed_def split: if_splits)
  from res show "stops r" by simp
  show "\<forall>k<n. \<not> stops (observed rf statement k)"
  proof (intro allI impI)
    fix k assume "k < n"
    with res show "\<not> stops (observed rf statement k)"
      by (cases k) (auto simp: observed_def stops_def split: if_splits)
  qed
  show "poll_events n = concat (replicate n [Sleep 2, Refresh])" by (simp add: poll_events_def)
next
  assume "active s \<and> \<not> active s'"
  then show "poll_loop (\<lambda>k. Inr (if k < N then s else s')) s 0 = Some (Inr s', Suc N)"
    by (simp add: poll_loop_unbounded)
qed

theorem poll_loop_ends_iff_witness:
  "poll_loop (two_rounds succeeded) running 0 = Some (Inr succeeded, 2)
   \<and> active running \<and> \<not> active succeeded
   \<and> Inr succeeded = observed (two_rounds succeeded) running 2
   \<and> stops (observed (two_rounds succeeded) running 2)
   \<and> \<not> stops (observed (two_rounds succeeded) running 1)
   \<and> poll_events 2 = [Sleep 2, Refresh, Sleep 2, Refresh]
   \<and> poll_loop (\<lambda>k. Inr (if k < 1 then running else succeeded)) running 0 =
        Some (Inr succeeded, 2)"
proof -
  have act: "active running \<and> \<not> active succeeded"
    by (simp add: active_def example_defs)
  have run: "poll_loop (two_rounds succeeded) running 0 = Some (Inr succeeded, 2)"
    using act
    by (simp add: poll_loop_round [where statement' = running]
        poll_loop_round [where statement' = succeeded] poll_loop_idle two_rounds_def
        numeral_2_eq_2)
  from poll_loop_ends_iff [of "two_rounds succeeded" running "Inr succeeded" 2 running succeeded 1]
    run act
  show ?thesis by (auto simp: numeral_2_eq_2)
qed

text \<open>
  C2: when polling stops on a handle whose state is not SUCCEEDED (FAILED in particular),
  the poller raises an error and returns no rows, and the error the tool raises to its
  caller contains the error detail the warehouse reported.
\<close>

theorem failed_statement_raises:
  assumes "truthy (environ ''DATABRICKS_SQL_WAREHOUSE_ID'')"
    and "execute_statement engine (the (environ ''DATABRICKS_SQL_WAREHOUSE_ID'')) query ''30s'' =
           Inr statement"
    and "poll_loop (refresh engine) statement 0 = Some (Inr statement', n)"
    and "state (status statement') \<noteq> ''SUCCEEDED''"
  shows "poll_results (refresh engine) statement =
           Some (Inl (RuntimeError (''Query failed: '' @ error (status statement'))),
                 poll_events n)
       \<and> run_sql_query environ engine query =
           Some (Inl (RuntimeError
                        (''SQL query failed: Query failed: '' @ error (status statement'))),
                 ExecuteStatement (the (environ ''DATABRICKS_SQL_WAREHOUSE_ID'')) query ''30s''
                   # poll_events n)
       \<and> sublist (error (status statement'))
           (''SQL query failed: Query failed: '' @ error (status statement'))"
proof -
  from assms(3,4) have p: "poll_results (refresh engine) statement =
      Some (Inl (RuntimeError (''Query failed: '' @ error (status statement'))), poll_events n)"
    by (simp add: poll_results_def)
  from assms(1,2) p have "run_sql_query environ engine query =
      Some (Inl (RuntimeError
                   (''SQL query failed: Query failed: '' @ error (status statement'))),
            ExecuteStatement (the (environ ''DATABRICKS_SQL_WAREHOUSE_ID'')) query ''30s''
              # poll_events n)"
    by (simp add: run_sql_query_def run_sql_query_body_def)
  moreover have "sublist (error (status statement'))
      (''SQL query failed: Query failed: '' @ error (status statement'))"
    unfolding sublist_def
    by (intro exI [where x = "''SQL query failed: Query failed: ''"] exI [where x = "[]"]) simp
  ultimately show ?thesis using p by simp
qed

theorem failed_statement_raises_witness:
  "truthy (warehouse_env ''DATABRICKS_SQL_WAREHOUSE_ID'')
   \<and> poll_loop (two_rounds failed) running 0 = Some (Inr failed, 2)
   \<and> state (status failed) \<noteq> ''SUCCEEDED''
   \<and> run_sql_query warehouse_env (warehouse running (two_rounds failed)) ''SELECT * FROM t'' =
       Some (Inl (RuntimeError ''SQL query failed: Query failed: TABLE_OR_VIEW_NOT_FOUND''),
             [ExecuteStatement ''w1'' ''SELECT * FROM t'' ''30s'', Sleep 2, Refresh, Sleep 2, Refresh])"
proof -
  have env: "truthy (warehouse_env ''DATABRICKS_SQL_WAREHOUSE_ID'')"
    by (simp add: truthy_def warehouse_env_def)
  have ex: "execute_statement (warehouse running (two_rounds failed))
      (the (warehouse_env ''DATABRICKS_SQL_WAREHOUSE_ID'')) ''SELECT * FROM t'' ''30s'' =
      Inr running"
    by (simp add: warehouse_def)
  have act: "active running \<and> \<not> active failed"
    by (simp add: active_def example_defs)
  then have run: "poll_loop (refresh (warehouse running (two_rounds failed))) running 0 =
      Some (Inr failed, 2)"
    by (simp add: poll_loop_round [where statement' = running]
        poll_loop_round [where statement' = failed] poll_loop_idle two_rounds_def
        warehouse_def numeral_2_eq_2)
  have st: "state (status failed) \<noteq> ''SUCCEEDED''"
    by (simp add: example_defs)
  from failed_statement_raises [of warehouse_env "warehouse running (two_rounds failed)"
      "''SELECT * FROM t''" running failed 2] env ex run st
  show ?thesis
    by (simp add: example_defs poll_events_def numeral_2_eq_2)
qed

section \<open>Row mappings\<close>

lemma dict_fold_keys:
  "fst ` set (foldl (\<lambda>d (k, v). AList.update k v d) d kvs) = fst ` set d \<union> fst ` set kvs"
proof (induction kvs arbitrary: d)
  case Nil
  show ?case by simp
next
  case (Cons kv kvs)
  obtain k v where kv: "kv = (k, v)" by (cases kv)
  have "fst ` set (AList.update k v d) = insert k (fst ` set d)"
    by (simp add: AList.dom_update)
  with Cons.IH [of "AList.update k v d"] kv show ?case by auto
qed

lemma dict_fold_distinct:
  "distinct (map fst d) \<Longrightarrow> distinct (map fst (foldl (\<lambda>d (k, v). AList.update k v d) d kvs))"
proof (induction kvs arbitrary: d)
  case Nil
  then show ?case by simp
next
  case (Cons kv kvs)
  obtain k v where kv: "kv = (k, v)" by (cases kv)
  from Cons.prems have "distinct (map fst (AList.update k v d))"
    by (simp add: AList.distinct_update)
  from Cons.IH [OF this] kv show ?case by simp
qed

lemma dict_fold_map_of:
  "map_of (foldl (\<lambda>d (k, v). AList.update k v d) d kvs) = map_of d ++ map_of (rev kvs)"
proof (induction kvs arbitrary: d)
  case Nil
  show ?case by simp
next
  case (Cons kv kvs)
  obtain k v where kv: "kv = (k, v)" by (cases kv)
  have "map_of (foldl (\<lambda>d (k, v). AList.update k v d) d (kv # kvs)) =
        map_of (AList.update k v d) ++ map_of (rev kvs)"
    using Cons.IH [of "AList.update k v d"] kv by simp
  also have "\<dots> = map_of d ++ map_of (rev (kv # kvs))"
    by (rule ext) (simp add: AList.update_conv' map_add_def kv split: option.splits)
  finally show ?case .
qed

lemma update_fresh: "k \<notin> fst ` set d \<Longrightarrow> AList.update k v d = d @ [(k, v)]"
  by (induction d) auto

lemma dict_fold_fresh:
  "distinct (map fst kvs) \<Longrightarrow> fst ` set d \<inter> fst ` set kvs = {} \<Longrightarrow>
     foldl (\<lambda>d (k, v). AList.update k v d) d kvs = d @ kvs"
proof (induction kvs arbitrary: d)
  case Nil
  show ?case by simp
next
  case (Cons kv kvs)
  obtain k v where kv: "kv = (k, v)" by (cases kv)
  with Cons.prems have fresh: "k \<notin> fst ` set d" by auto
  have "fst ` set (d @ [(k, v)]) \<inter> fst ` set kvs = {}"
    using Cons.prems kv by auto
  moreover have "distinct (map fst kvs)" using Cons.prems by simp
  ultimately have "foldl (\<lambda>d (k, v). AList.update k v d) (d @ [(k, v)]) kvs = (d @ [(k, v)]) @ kvs"
    by (rule Cons.IH [rotated])
  with fresh kv show ?case by (simp add: update_fresh)
qed

lemma dict_keys: "fst ` set (dict kvs) = fst ` set kvs"
  by (simp add: dict_def dict_fold_keys)

lemma dict_distinct: "distinct (map fst (dict kvs))"
  by (simp add: dict_def dict_fold_distinct)

lemma dict_map_of: "map_of (dict kvs) = map_of (rev kvs)"
  by (simp add: dict_def dict_fold_map_of)

lemma dict_distinct_keys: "distinct (map fst kvs) \<Longrightarrow> dict kvs = kvs"
  using dict_fold_fresh [of kvs "[]"] by (simp add: dict_def)

lemma dict_length: "length (dict kvs) = card (fst ` set kvs)"
proof -
  have "length (dict kvs) = length (map fst (dict kvs))" by simp
  also have "\<dots> = card (set (map fst (dict kvs)))"
    by (rule distinct_card [symmetric]) (rule dict_distinct)
  also have "\<dots> = card (fst ` set kvs)" by (simp add: dict_keys)
  finally show ?thesis .
qed

lemma dict_zip_distinct:
  "distinct columns \<Longrightarrow> dict (zip columns row) = zip columns row"
  by (rule dict_distinct_keys) (simp add: map_fst_zip_take)

lemma dict_zip_fewer:
  assumes "\<not> distinct columns"
  shows "length (dict (zip columns row)) < length columns"
proof -
  have "fst ` set (zip columns row) \<subseteq> set columns"
    by (auto dest: set_zip_leftD)
  then have "card (fst ` set (zip columns row)) \<le> card (set columns)"
    by (simp add: card_mono)
  moreover have "card (set columns) < length columns"
    using assms card_distinct [of columns] card_length [of columns] by (cases "card (set columns) = length columns") auto
  ultimately show ?thesis by (simp add: dict_length)
qed

lemma dict_zip_last:
  assumes "j < length columns" and "length row = length columns"
    and "\<forall>k. j < k \<and> k < length columns \<longrightarrow> columns ! k \<noteq> columns ! j"
  shows "map_of (dict (zip columns row)) (columns ! j) = Some (row ! j)"
proof -
  let ?later = "zip (drop (Suc j) columns) (drop (Suc j) row)"
  have split: "zip columns row =
      zip (take j columns) (take j row) @ (columns ! j, row ! j) # ?later"
    using assms(1,2)
    by (metis Cons_nth_drop_Suc append_take_drop_id zip_Cons_Cons zip_append length_take)
  have "columns ! j \<notin> set (drop (Suc j) columns)"
  proof
    assume "columns ! j \<in> set (drop (Suc j) columns)"
    then obtain i where "i < length (drop (Suc j) columns)"
      and "drop (Suc j) columns ! i = columns ! j"
      by (auto simp: in_set_conv_nth)
    then have "Suc j + i < length columns" and "columns ! (Suc j + i) = columns ! j"
      by simp_all
    with assms(3) show False by auto
  qed
  then have "columns ! j \<notin> fst ` set ?later"
    by (auto dest: set_zip_leftD)
  then have "map_of (rev ?later) (columns ! j) = None"
    by (simp add: map_of_eq_None_iff)
  then show ?thesis
    unfolding dict_map_of
    by (subst split) (simp add: map_add_def)
qed

lemma translate_results_map:
  "schema (result statement) = Some sch \<Longrightarrow> map name (schema.fields sch) = columns \<Longrightarrow>
     translate_results statement rows = map (\<lambda>row. dict (zip columns row)) rows"
  by (cases rows) (auto simp: translate_results_def)

lemma run_query_sync_map:
  "execute sf q = None \<Longrightarrow> description sf = Some ds \<Longrightarrow> map fst ds = columns \<Longrightarrow>
     fetchall sf = Inr rows \<Longrightarrow> columns \<noteq> [] \<Longrightarrow>
     fst (run_query_sync sf q) = Inr (map (\<lambda>row. dict (zip columns row)) rows)"
  by (auto simp: run_query_sync_def)

lemma translate_results_empty:
  "translate_results statement [] = []"
  "schema (result statement) = None \<Longrightarrow> translate_results statement rows = []"
  by (simp_all add: translate_results_def)

lemma run_query_sync_empty:
  assumes "execute sf q = None"
  shows "fetchall sf = Inr [] \<Longrightarrow> fst (run_query_sync sf q) = Inr []"
    and "fetchall sf = Inr rows \<Longrightarrow> description sf = None \<or> description sf = Some [] \<Longrightarrow>
           fst (run_query_sync sf q) = Inr []"
  using assms by (auto simp: run_query_sync_def Let_def)

text \<open>
  C3: with no rows or no columns both translators should return the empty sequence. The
  translator of \<^verbatim>\<open>run_sql_query\<close> tests that a schema is present, not that it has
  fields: on a schema without fields and one row it returns one empty mapping. The
  translator of \<^verbatim>\<open>run_snowflake_query\<close> tests the column list itself.
\<close>

theorem empty_schema_gives_empty_mappings:
  "run_sql_query warehouse_env (warehouse no_columns always_running) ''SELECT 1'' =
     Some (Inr [[]], [ExecuteStatement ''w1'' ''SELECT 1'' ''30s''])"
proof -
  have "\<not> active no_columns" by (simp add: active_def example_defs)
  then have "poll_loop always_running no_columns 0 = Some (Inr no_columns, 0)"
    by (rule poll_loop_idle)
  then show ?thesis
    by (simp add: tool_defs example_defs)
qed

text \<open>
  The claim C4 as written fails when two columns share a name (one key is lost), and in
  \<^verbatim>\<open>run_snowflake_query\<close> when there are no columns (no mapping is produced for
  the rows).
\<close>

theorem row_mappings_shape_fails:
  "translate_results duplicate_columns [[1, 2]] = [[(''a'', 2)]]
   \<and> fst (run_query_sync (database (Some [(''a'', ()), (''a'', ())]) [[1, 2]]) ''SELECT 1'') =
       Inr [[(''a'', 2)]]
   \<and> length [(''a'', 2 :: nat)] \<noteq> length [Field ''a'', Field ''a'']
   \<and> fst (run_query_sync (database (Some []) [[], []]) ''SELECT 1'') = Inr []
   \<and> length ([] :: (string, nat) dict list) \<noteq> length [[], [] :: nat list]"
  by (simp add: tool_defs example_defs)

text \<open>
  C4, amended: for every non-empty list of columns with pairwise distinct names and every
  list of rows that each have as many cells as there are columns, both translators return
  one mapping per row, with as many keys as there are columns, that pairs the name of
  column \<open>j\<close> with cell \<open>j\<close> of the row.
\<close>

theorem row_mappings_shape:
  assumes "columns \<noteq> []" and "distinct columns"
    and "\<forall>row \<in> set rows. length row = length columns"
    and "schema (result statement) = Some sch" and "map name (schema.fields sch) = columns"
    and "execute sf q = None" and "description sf = Some ds" and "map fst ds = columns"
    and "fetchall sf = Inr rows"
  shows "translate_results statement rows = map (zip columns) rows
       \<and> fst (run_query_sync sf q) = Inr (map (zip columns) rows)
       \<and> length (map (zip columns) rows) = length rows
       \<and> (\<forall>i<length rows.
            length (map (zip columns) rows ! i) = length columns
            \<and> distinct (map fst (map (zip columns) rows ! i))
            \<and> (\<forall>j<length columns.
                 map (zip columns) rows ! i ! j = (columns ! j, rows ! i ! j)))"
proof -
  have same: "map (\<lambda>row. dict (zip columns row)) rows = map (zip columns) rows"
    using assms(2) by (simp add: dict_zip_distinct)
  have "translate_results statement rows = map (zip columns) rows"
    using translate_results_map [OF assms(4,5)] same by simp
  moreover have "fst (run_query_sync sf q) = Inr (map (zip columns) rows)"
    using run_query_sync_map [OF assms(6,7,8,9,1)] same by simp
  moreover have "\<forall>i<length rows.
      length (map (zip columns) rows ! i) = length columns
      \<and> distinct (map fst (map (zip columns) rows ! i))
      \<and> (\<forall>j<length columns. map (zip columns) rows ! i ! j = (columns ! j, rows ! i ! j))"
  proof (intro allI impI)
    fix i assume i: "i < length rows"
    with assms(3) have len: "length (rows ! i) = length columns" by simp
    with assms(2) i show "length (map (zip columns) rows ! i) = length columns
      \<and> distinct (map fst (map (zip columns) rows ! i))
      \<and> (\<forall>j<length columns. map (zip columns) rows ! i ! j = (columns ! j, rows ! i ! j))"
      by (simp add: map_fst_zip_take)
  qed
  ultimately show ?thesis by simp
qed

theorem row_mappings_shape_witness:
  "[''a'', ''b''] \<noteq> [] \<and> distinct [''a'', ''b'']
   \<and> length [1, 2 :: nat] = length [''a'', ''b''] \<and> length [3, 4 :: nat] = length [''a'', ''b'']
   \<and> translate_results succeeded [[1, 2], [3, 4]] =
       [[(''a'', 1), (''b'', 2)], [(''a'', 3), (''b'', 4)]]
   \<and> fst (run_query_sync (database (Some [(''a'', ()), (''b'', ())]) [[1, 2], [3, 4]])
            ''SELECT 1'') =
       Inr [[(''a'', 1), (''b'', 2)], [(''a'', 3), (''b'', 4)]]"
  using row_mappings_shape [of "[''a'', ''b'']" "[[1, 2], [3, 4]]" succeeded
      "Schema [Field ''a'', Field ''b'']"
      "database (Some [(''a'', ()), (''b'', ())]) [[1, 2], [3, 4]]" "''SELECT 1''"
      "[(''a'', ()), (''b'', ())]"]
  by (simp add: example_defs)

text \<open>
  C10: when two columns share a name, both translators produce for each row a mapping with
  fewer keys than there are columns, in which a name carries the cell of the last column
  that bears it.
\<close>

theorem duplicate_columns_collapse:
  assumes "\<not> distinct columns"
    and "schema (result statement) = Some sch" and "map name (schema.fields sch) = columns"
    and "execute sf q = None" and "description sf = Some ds" and "map fst ds = columns"
    and "fetchall sf = Inr rows"
  shows "translate_results statement rows = map (\<lambda>row. dict (zip columns row)) rows
       \<and> fst (run_query_sync sf q) = Inr (map (\<lambda>row. dict (zip columns row)) rows)
       \<and> (\<forall>row \<in> set rows.
            length (dict (zip columns row)) < length columns
            \<and> (length row = length columns \<longrightarrow>
                 (\<forall>j<length columns.
                    (\<forall>k. j < k \<and> k < length columns \<longrightarrow> columns ! k \<noteq> columns ! j) \<longrightarrow>
                    map_of (dict (zip columns row)) (columns ! j) = Some (row ! j))))"
proof -
  from assms(1) have "columns \<noteq> []" by auto
  from run_query_sync_map [OF assms(4,5,6,7) this] translate_results_map [OF assms(2,3)]
  have "translate_results statement rows = map (\<lambda>row. dict (zip columns row)) rows"
    and "fst (run_query_sync sf q) = Inr (map (\<lambda>row. dict (zip columns row)) rows)"
    by simp_all
  moreover have "length (dict (zip columns row)) < length columns" for row
    by (rule dict_zip_fewer [OF assms(1)])
  moreover have "map_of (dict (zip columns row)) (columns ! j) = Some (row ! j)"
    if "length row = length columns" and "j < length columns"
      and "\<forall>k. j < k \<and> k < length columns \<longrightarrow> columns ! k \<noteq> columns ! j" for row j
    using that by (intro dict_zip_last) simp_all
  ultimately show ?thesis by blast
qed

theorem duplicate_columns_collapse_witness:
  "\<not> distinct [''a'', ''b'', ''a'']
   \<and> translate_results
        (handle ''SUCCEEDED'' [] (Some [[1, 2, 3]])
           (Some (Schema [Field ''a'', Field ''b'', Field ''a''])))
        [[1, 2, 3 :: nat]] = [[(''a'', 3), (''b'', 2)]]
   \<and> fst (run_query_sync (database (Some [(''a'', ()), (''b'', ()), (''a'', ())]) [[1, 2, 3]])
            ''SELECT 1'') = Inr [[(''a'', 3), (''b'', 2)]]
   \<and> length (dict (zip [''a'', ''b'', ''a''] [1, 2, 3 :: nat])) < length [''a'', ''b'', ''a'']
   \<and> map_of (dict (zip [''a'', ''b'', ''a''] [1, 2, 3 :: nat])) ''a'' = Some 3"
  using duplicate_columns_collapse [of "[''a'', ''b'', ''a'']"
      "handle ''SUCCEEDED'' [] (Some [[1, 2, 3]]) (Some (Schema [Field ''a'', Field ''b'', Field ''a'']))"
      "Schema [Field ''a'', Field ''b'', Field ''a'']"
      "database (Some [(''a'', ()), (''b'', ()), (''a'', ())]) [[1, 2, 3]]" "''SELECT 1''"
      "[(''a'', ()), (''b'', ()), (''a'', ())]" "[[1, 2, 3]]"]
  by (simp add: example_defs dict_def)

section \<open>Connections and configuration\<close>

lemma connection_closed_iff_returns:
  "ConnClose \<in> set (snd (run_snowflake_query environ sf query)) =
     (\<exists>results. fst (run_snowflake_query environ sf query) = Inr results)"
  by (auto simp: run_snowflake_query_def run_snowflake_query_body_def run_query_sync_def Let_def
      split: option.splits sum.splits)

text \<open>
  C6: once the connection is open it should be closed before the tool returns or raises.
  \<^verbatim>\<open>conn.close()\<close> is called on the path that returns only: when
  \<^verbatim>\<open>cur.execute\<close> raises, the tool raises with the connection still open.
\<close>

theorem connection_left_open:
  "run_snowflake_query snowflake_env (database (Some [(''a'', ())]) [[1]]) ''SELEC 1'' =
     (Inl (RuntimeError ''Snowflake query failed: syntax error''),
      [Connect, Cursor, Execute ''SELEC 1'', CursorExit])"
  by (simp add: tool_defs example_defs)

text \<open>
  The claim C7 as written fails for \<^verbatim>\<open>run_snowflake_query\<close>: its message is the same
  whichever variable is missing and names none.
\<close>

theorem snowflake_message_is_generic:
  "run_snowflake_query (snowflake_env(''SNOWFLAKE_ACCOUNT'' := None))
       (database (Some [(''a'', ())]) [[1]]) ''SELECT 1'' =
     (Inl (RuntimeError
        ''Snowflake query failed: Missing one or more Snowflake environment variables.''), [])
   \<and> \<not> sublist ''SNOWFLAKE_ACCOUNT''
        ''Snowflake query failed: Missing one or more Snowflake environment variables.''"
  by (simp add: tool_defs example_defs sublist_code(3))

text \<open>
  C7, amended: with the warehouse id unset or empty, \<^verbatim>\<open>run_sql_query\<close> raises before
  it submits anything and its message names DATABRICKS\_SQL\_WAREHOUSE\_ID; with any of the
  six Snowflake variables unset or empty, \<^verbatim>\<open>run_snowflake_query\<close> raises before it
  connects, with one fixed message that says a variable is missing without naming it.
\<close>

theorem missing_configuration:
  "(\<not> truthy (environ ''DATABRICKS_SQL_WAREHOUSE_ID'') \<longrightarrow>
      run_sql_query environ engine query =
        Some (Inl (RuntimeError ''SQL query failed: DATABRICKS_SQL_WAREHOUSE_ID not set''), [])
      \<and> sublist ''DATABRICKS_SQL_WAREHOUSE_ID''
          ''SQL query failed: DATABRICKS_SQL_WAREHOUSE_ID not set'')
   \<and> (v \<in> set snowflake_variables \<and> \<not> truthy (environ v) \<longrightarrow>
      run_snowflake_query environ sf query =
        (Inl (RuntimeError
           ''Snowflake query failed: Missing one or more Snowflake environment variables.''),
         []))"
proof (intro conjI impI)
  assume "\<not> truthy (environ ''DATABRICKS_SQL_WAREHOUSE_ID'')"
  then show "run_sql_query environ engine query =
      Some (Inl (RuntimeError ''SQL query failed: DATABRICKS_SQL_WAREHOUSE_ID not set''), [])"
    by (simp add: run_sql_query_def run_sql_query_body_def)
next
  show "sublist ''DATABRICKS_SQL_WAREHOUSE_ID''
      ''SQL query failed: DATABRICKS_SQL_WAREHOUSE_ID not set''"
    by (simp add: sublist_code(3))
next
  assume "v \<in> set snowflake_variables \<and> \<not> truthy (environ v)"
  then have "\<not> list_all truthy (map environ snowflake_variables)"
    by (auto simp: list_all_iff)
  then show "run_snowflake_query environ sf query =
      (Inl (RuntimeError
         ''Snowflake query failed: Missing one or more Snowflake environment variables.''), [])"
    by (simp add: run_snowflake_query_def run_snowflake_query_body_def)
qed

theorem missing_configuration_witness:
  "\<not> truthy (Map.empty ''DATABRICKS_SQL_WAREHOUSE_ID'')
   \<and> run_sql_query Map.empty (warehouse succeeded always_running) ''SELECT 1'' =
       Some (Inl (RuntimeError ''SQL query failed: DATABRICKS_SQL_WAREHOUSE_ID not set''), [])
   \<and> ''SNOWFLAKE_USER'' \<in> set snowflake_variables
   \<and> \<not> truthy (Map.empty ''SNOWFLAKE_USER'')
   \<and> run_snowflake_query Map.empty (database None []) ''SELECT 1'' =
       (Inl (RuntimeError
          ''Snowflake query failed: Missing one or more Snowflake environment variables.''),
        [])"
  using missing_configuration [of Map.empty "warehouse succeeded always_running"
      "''SELECT 1''" "''SNOWFLAKE_USER''" "database None []"]
  by (simp add: truthy_def snowflake_variables_def)

end
